theory Spec2Isabelle
  imports Complex_Main "HOL-Library.AList"
begin

section \<open>The backtesting engine of \<^verbatim>\<open>src/backtesting.py\<close>\<close>

text \<open>
  The class \<^verbatim>\<open>BacktestingEngine\<close> is embedded by explicit state passing: every method takes
  the engine and returns the engine it leaves behind, together with the exception it raised
  (if any). Python dictionaries are association lists read with \<open>map_of\<close> and written with
  \<open>AList.update\<close> (a new key goes to the end, an old key keeps its place, as in a Python
  dict). Prices, cash and rates are Python floats; they are idealised as real numbers, so
  rounding, \<^verbatim>\<open>inf\<close> and \<^verbatim>\<open>nan\<close> are outside the model. Quantities are Python ints.
  Dates are counted in days.
\<close>

subsection \<open>Values, errors, records\<close>

type_synonym date = nat

datatype pyval = PDate date | PStr string | PInt int | PFloat real

datatype py_error = KeyError pyval | IndexError | TypeError | ZeroDivisionError

text \<open>A trade record is the dict literal appended to \<^verbatim>\<open>trade_history\<close>.\<close>

type_synonym trade = "(string \<times> pyval) list"

text \<open>
  The \<^verbatim>\<open>reason\<close> of a risk signal is an f-string around the formatted return; the model
  keeps the kind and the return itself.
\<close>

datatype reason = Stop_loss_triggered real | Take_profit_triggered real | Reason_text string

text \<open>
  A signal is a dict that the engine reads at the keys \<^verbatim>\<open>symbol\<close>, \<^verbatim>\<open>action\<close> and
  \<^verbatim>\<open>quantity\<close>; a key that is absent is \<open>None\<close>.
\<close>

record signal =
  sg_symbol :: "string option"
  sg_action :: "string option"
  sg_quantity :: "int option"
  sg_reason :: "reason option"

record snapshot =
  sn_date :: date
  sn_portfolio_value :: real
  sn_cash :: real
  sn_positions :: "(string \<times> int) list"

record engine =
  initial_capital :: real
  current_capital :: real
  positions :: "(string \<times> int) list"
  trade_history :: "trade list"
  portfolio_values :: "snapshot list"
  transaction_cost :: real
  slippage :: real
  stop_loss :: real
  take_profit :: real
  position_entry_prices :: "(string \<times> real) list"

definition init_engine :: "real \<Rightarrow> real \<Rightarrow> real \<Rightarrow> real \<Rightarrow> real \<Rightarrow> engine" where
  "init_engine ic tc sl stop tp =
     \<lparr>initial_capital = ic, current_capital = ic,
      positions = [(''1579.T'', 0), (''1360.T'', 0)],
      trade_history = [], portfolio_values = [],
      transaction_cost = tc, slippage = sl, stop_loss = stop, take_profit = tp,
      position_entry_prices = []\<rparr>"

subsection \<open>\<^verbatim>\<open>execute_trade\<close>\<close>

definition buy_record :: "date \<Rightarrow> string \<Rightarrow> string \<Rightarrow> int \<Rightarrow> real \<Rightarrow> real \<Rightarrow> real \<Rightarrow> real \<Rightarrow> trade" where
  "buy_record d symbol action quantity execution_price total_cost transaction_fee slip_cost =
     [(''date'', PDate d), (''symbol'', PStr symbol), (''action'', PStr action),
      (''quantity'', PInt quantity), (''price'', PFloat execution_price),
      (''cost'', PFloat total_cost), (''transaction_fee'', PFloat transaction_fee),
      (''slippage_cost'', PFloat slip_cost)]"

definition sell_record :: "date \<Rightarrow> string \<Rightarrow> string \<Rightarrow> int \<Rightarrow> real \<Rightarrow> real \<Rightarrow> real \<Rightarrow> real \<Rightarrow> trade" where
  "sell_record d symbol action quantity execution_price net_revenue transaction_fee slip_cost =
     [(''date'', PDate d), (''symbol'', PStr symbol), (''action'', PStr action),
      (''quantity'', PInt quantity), (''price'', PFloat execution_price),
      (''revenue'', PFloat net_revenue), (''transaction_fee'', PFloat transaction_fee),
      (''slippage_cost'', PFloat slip_cost)]"

text \<open>
  The BUY branch, entered once the cost test has passed. The source subtracts the cost
  from \<^verbatim>\<open>current_capital\<close> before it reads \<^verbatim>\<open>positions[symbol]\<close>, so a symbol that is
  not a key raises \<^verbatim>\<open>KeyError\<close> with the cash already reduced.
\<close>

definition buy_accept :: "engine \<Rightarrow> string \<Rightarrow> string \<Rightarrow> int \<Rightarrow> real \<Rightarrow> date \<Rightarrow> real \<Rightarrow> py_error option \<times> engine" where
  "buy_accept s symbol action quantity price d execution_price =
     (let gross_cost = real_of_int quantity * execution_price;
          transaction_fee = gross_cost * transaction_cost s;
          total_cost = gross_cost + transaction_fee;
          s1 = s\<lparr>current_capital := current_capital s - total_cost\<rparr>
      in case map_of (positions s1) symbol of
           None \<Rightarrow> (Some (KeyError (PStr symbol)), s1)
         | Some held \<Rightarrow>
             (let s2 = s1\<lparr>positions := AList.update symbol (held + quantity) (positions s1)\<rparr>;
                  s3 = (if map_of (position_entry_prices s2) symbol = None
                           \<or> map_of (positions s2) symbol = Some quantity
                        then s2\<lparr>position_entry_prices :=
                                  AList.update symbol execution_price (position_entry_prices s2)\<rparr>
                        else s2)
              in (None, s3\<lparr>trade_history := trade_history s3 @
                    [buy_record d symbol action quantity execution_price total_cost
                       transaction_fee (real_of_int quantity * price * slippage s)]\<rparr>)))"

definition sell_accept :: "engine \<Rightarrow> string \<Rightarrow> string \<Rightarrow> int \<Rightarrow> real \<Rightarrow> date \<Rightarrow> real \<Rightarrow> int \<Rightarrow> engine" where
  "sell_accept s symbol action quantity price d execution_price held =
     (let gross_revenue = real_of_int quantity * execution_price;
          transaction_fee = gross_revenue * transaction_cost s;
          net_revenue = gross_revenue - transaction_fee;
          s1 = s\<lparr>current_capital := current_capital s + net_revenue\<rparr>;
          s2 = s1\<lparr>positions := AList.update symbol (held - quantity) (positions s1)\<rparr>
      in s2\<lparr>trade_history := trade_history s2 @
            [sell_record d symbol action quantity execution_price net_revenue
               transaction_fee (real_of_int quantity * price * slippage s)]\<rparr>)"

definition execute_trade :: "engine \<Rightarrow> string \<Rightarrow> string \<Rightarrow> int \<Rightarrow> real \<Rightarrow> date \<Rightarrow> py_error option \<times> engine" where
  "execute_trade s symbol action quantity price d =
     (let execution_price = (if action = ''BUY'' then price * (1 + slippage s)
                             else price * (1 - slippage s))
      in if action = ''BUY'' then
           (if real_of_int quantity * execution_price
                 + real_of_int quantity * execution_price * transaction_cost s
                 \<le> current_capital s
            then buy_accept s symbol action quantity price d execution_price
            else (None, s))
         else if action = ''SELL'' then
           (case map_of (positions s) symbol of
              None \<Rightarrow> (Some (KeyError (PStr symbol)), s)
            | Some held \<Rightarrow>
                if held \<ge> quantity
                then (None, sell_accept s symbol action quantity price d execution_price held)
                else (None, s))
         else (None, s))"

subsection \<open>\<^verbatim>\<open>calculate_portfolio_value\<close> and \<^verbatim>\<open>check_risk_management\<close>\<close>

definition calculate_portfolio_value :: "engine \<Rightarrow> (string \<times> real) list \<Rightarrow> real" where
  "calculate_portfolio_value s current_prices =
     foldl (\<lambda>portfolio_value (symbol, quantity).
              case map_of current_prices symbol of
                Some price \<Rightarrow> portfolio_value + real_of_int quantity * price
              | None \<Rightarrow> portfolio_value)
           (current_capital s) (positions s)"

text \<open>
  The return is a quotient by the entry price. For a Python float a zero entry price
  raises \<^verbatim>\<open>ZeroDivisionError\<close>, which is the branch written here (a numpy scalar would
  give \<^verbatim>\<open>inf\<close> or \<^verbatim>\<open>nan\<close> instead, values the real numbers do not have).
\<close>

definition check_risk_management :: "engine \<Rightarrow> string \<Rightarrow> real \<Rightarrow> date \<Rightarrow> py_error + signal list" where
  "check_risk_management s symbol current_price d =
     (case map_of (positions s) symbol of
        None \<Rightarrow> Inr []
      | Some held \<Rightarrow>
          if held > 0 then
            (case map_of (position_entry_prices s) symbol of
               None \<Rightarrow> Inr []
             | Some entry_price \<Rightarrow>
                 if entry_price = 0 then Inl ZeroDivisionError
                 else
                   (let current_return = (current_price - entry_price) / entry_price
                    in if current_return \<le> - stop_loss s then
                         Inr [\<lparr>sg_symbol = Some symbol, sg_action = Some ''SELL'',
                               sg_quantity = Some held,
                               sg_reason = Some (Stop_loss_triggered current_return)\<rparr>]
                       else if current_return \<ge> take_profit s then
                         Inr [\<lparr>sg_symbol = Some symbol, sg_action = Some ''SELL'',
                               sg_quantity = Some held,
                               sg_reason = Some (Take_profit_triggered current_return)\<rparr>]
                       else Inr []))
          else Inr [])"

subsection \<open>\<^verbatim>\<open>run_backtest\<close>\<close>

text \<open>
  A data frame is its index with the \<^verbatim>\<open>Close\<close> column, in ascending date order.
  \<^verbatim>\<open>get_historical_data\<close> asks Yahoo Finance for one frame per symbol: that is the
  parameter \<open>fetch\<close>. \<^verbatim>\<open>calculate_technical_indicators\<close> adds columns and fills gaps; it
  leaves the index and (there being no \<^verbatim>\<open>nan\<close> among real numbers) the closing prices as
  they are, so \<^verbatim>\<open>data[symbol]\<close> is \<open>fetch symbol\<close>. The trading algorithm is a parameter too:
  it gets the histories up to the date and the current prices, and returns signals.
\<close>

type_synonym frame = "(date \<times> real) list"

type_synonym algorithm = "(string \<times> frame) list \<Rightarrow> (string \<times> real) list \<Rightarrow> signal list"

record result =
  r_initial_capital :: real
  r_final_value :: real
  r_total_return :: real
  r_max_drawdown :: real
  r_trade_history :: "trade list"
  r_portfolio_values :: "snapshot list"
  r_total_trades :: nat

text \<open>\<^verbatim>\<open>data.values()\<close>: one frame per key, in the order the keys were first inserted.\<close>

definition data_values :: "(string \<Rightarrow> frame) \<Rightarrow> string list \<Rightarrow> frame list" where
  "data_values fetch symbols = map fetch (rev (remdups (rev symbols)))"

text \<open>
  \<^verbatim>\<open>sorted(list(set.intersection(*[set(df.index) for df in data.values()])))\<close>;
  \<^verbatim>\<open>set.intersection\<close> without an argument is a \<^verbatim>\<open>TypeError\<close>.
\<close>

definition common_dates :: "frame list \<Rightarrow> py_error + date list" where
  "common_dates dfs =
     (case dfs of
        [] \<Rightarrow> Inl TypeError
      | df # rest \<Rightarrow>
          Inr (sorted_list_of_set
                 (fold (\<lambda>other acc. acc \<inter> set (map fst other)) rest (set (map fst df)))))"

text \<open>\<^verbatim>\<open>{symbol: 0 for symbol in symbols}\<close>\<close>

definition zero_positions :: "string list \<Rightarrow> (string \<times> int) list" where
  "zero_positions symbols = foldl (\<lambda>al symbol. AList.update symbol 0 al) [] symbols"

text \<open>\<^verbatim>\<open>{symbol: data[symbol].loc[:date] for symbol in symbols}\<close>\<close>

definition current_data :: "(string \<Rightarrow> frame) \<Rightarrow> string list \<Rightarrow> date \<Rightarrow> (string \<times> frame) list" where
  "current_data fetch symbols d =
     foldl (\<lambda>al symbol. AList.update symbol (filter (\<lambda>(d', c). d' \<le> d) (fetch symbol)) al)
           [] symbols"

text \<open>\<^verbatim>\<open>{symbol: data[symbol].loc[date, 'Close'] for symbol in symbols}\<close>\<close>

fun current_prices :: "(string \<Rightarrow> frame) \<Rightarrow> date \<Rightarrow> (string \<times> real) list \<Rightarrow> string list \<Rightarrow>
    py_error + (string \<times> real) list" where
  "current_prices fetch d acc [] = Inr acc"
| "current_prices fetch d acc (symbol # symbols) =
     (case map_of (fetch symbol) d of
        None \<Rightarrow> Inl (KeyError (PDate d))
      | Some c \<Rightarrow> current_prices fetch d (AList.update symbol c acc) symbols)"

text \<open>The loop that collects \<^verbatim>\<open>risk_signals\<close> over the symbols.\<close>

fun risk_signals :: "engine \<Rightarrow> (string \<times> real) list \<Rightarrow> date \<Rightarrow> string list \<Rightarrow> py_error + signal list" where
  "risk_signals s prices d [] = Inr []"
| "risk_signals s prices d (symbol # symbols) =
     (case map_of prices symbol of
        None \<Rightarrow> Inl (KeyError (PStr symbol))
      | Some price \<Rightarrow>
          (case check_risk_management s symbol price d of
             Inl e \<Rightarrow> Inl e
           | Inr found \<Rightarrow>
               (case risk_signals s prices d symbols of
                  Inl e \<Rightarrow> Inl e
                | Inr others \<Rightarrow> Inr (found @ others))))"

text \<open>
  The two loops \<^verbatim>\<open>for signal in ...: self.execute_trade(symbol=signal['symbol'], ...)\<close>.
  The keyword arguments are evaluated from left to right, each subscript raising
  \<^verbatim>\<open>KeyError\<close> for an absent key.
\<close>

fun execute_signals :: "engine \<Rightarrow> (string \<times> real) list \<Rightarrow> date \<Rightarrow> signal list \<Rightarrow> py_error option \<times> engine" where
  "execute_signals s prices d [] = (None, s)"
| "execute_signals s prices d (sg # sgs) =
     (case sg_symbol sg of
        None \<Rightarrow> (Some (KeyError (PStr ''symbol'')), s)
      | Some symbol \<Rightarrow>
     (case sg_action sg of
        None \<Rightarrow> (Some (KeyError (PStr ''action'')), s)
      | Some action \<Rightarrow>
     (case sg_quantity sg of
        None \<Rightarrow> (Some (KeyError (PStr ''quantity'')), s)
      | Some quantity \<Rightarrow>
     (case map_of prices symbol of
        None \<Rightarrow> (Some (KeyError (PStr symbol)), s)
      | Some price \<Rightarrow>
     (case execute_trade s symbol action quantity price d of
        (Some e, s') \<Rightarrow> (Some e, s')
      | (None, s') \<Rightarrow> execute_signals s' prices d sgs)))))"

text \<open>One pass of the body of \<^verbatim>\<open>for date in common_dates\<close>.\<close>

definition run_bar :: "algorithm \<Rightarrow> (string \<Rightarrow> frame) \<Rightarrow> string list \<Rightarrow> engine \<Rightarrow> date \<Rightarrow> py_error option \<times> engine" where
  "run_bar trading_algorithm fetch symbols s d =
     (case current_prices fetch d [] symbols of
        Inl e \<Rightarrow> (Some e, s)
      | Inr prices \<Rightarrow>
          (let signals = trading_algorithm (current_data fetch symbols d) prices
           in case risk_signals s prices d symbols of
                Inl e \<Rightarrow> (Some e, s)
              | Inr risk \<Rightarrow>
                  (case execute_signals s prices d risk of
                     (Some e, s1) \<Rightarrow> (Some e, s1)
                   | (None, s1) \<Rightarrow>
                       (case execute_signals s1 prices d signals of
                          (Some e, s2) \<Rightarrow> (Some e, s2)
                        | (None, s2) \<Rightarrow>
                            (None, s2\<lparr>portfolio_values := portfolio_values s2 @
                               [\<lparr>sn_date = d,
                                 sn_portfolio_value = calculate_portfolio_value s2 prices,
                                 sn_cash = current_capital s2,
                                 sn_positions = positions s2\<rparr>]\<rparr>)))))"

fun run_bars :: "algorithm \<Rightarrow> (string \<Rightarrow> frame) \<Rightarrow> string list \<Rightarrow> engine \<Rightarrow> date list \<Rightarrow> py_error option \<times> engine" where
  "run_bars trading_algorithm fetch symbols s [] = (None, s)"
| "run_bars trading_algorithm fetch symbols s (d # ds) =
     (case run_bar trading_algorithm fetch symbols s d of
        (Some e, s') \<Rightarrow> (Some e, s')
      | (None, s') \<Rightarrow> run_bars trading_algorithm fetch symbols s' ds)"

text \<open>
  The maximum-drawdown loop. The metrics divide floats; where a divisor is zero numpy
  gives \<^verbatim>\<open>inf\<close> or \<^verbatim>\<open>nan\<close>, which real numbers cannot express, so a metric is meaningful
  in the model only for a nonzero divisor.
\<close>

definition max_drawdown_of :: "real list \<Rightarrow> real" where
  "max_drawdown_of vs =
     snd (foldl (\<lambda>(peak, max_drawdown) v.
                   (let peak' = (if v > peak then v else peak);
                        drawdown = (peak' - v) / peak' * 100
                    in (peak', if drawdown > max_drawdown then drawdown else max_drawdown)))
                (hd vs, 0) vs)"

definition run_backtest :: "algorithm \<Rightarrow> (string \<Rightarrow> frame) \<Rightarrow> string list \<Rightarrow> engine \<Rightarrow> (py_error + result) \<times> engine" where
  "run_backtest trading_algorithm fetch symbols s =
     (case common_dates (data_values fetch symbols) of
        Inl e \<Rightarrow> (Inl e, s)
      | Inr dates \<Rightarrow>
          (let s0 = s\<lparr>current_capital := initial_capital s,
                      positions := zero_positions symbols,
                      trade_history := [],
                      portfolio_values := []\<rparr>
           in case run_bars trading_algorithm fetch symbols s0 dates of
                (Some e, s') \<Rightarrow> (Inl e, s')
              | (None, s') \<Rightarrow>
                  (case portfolio_values s' of
                     [] \<Rightarrow> (Inl IndexError, s')
                   | _ # _ \<Rightarrow>
                       (let final_value = sn_portfolio_value (last (portfolio_values s'))
                        in (Inr \<lparr>r_initial_capital = initial_capital s',
                                 r_final_value = final_value,
                                 r_total_return =
                                   (final_value - initial_capital s') / initial_capital s' * 100,
                                 r_max_drawdown =
                                   max_drawdown_of (map sn_portfolio_value (portfolio_values s')),
                                 r_trade_history = trade_history s',
                                 r_portfolio_values = portfolio_values s',
                                 r_total_trades = length (trade_history s')\<rparr>, s')))))"

subsection \<open>Predicates and sample data for the statements below\<close>



text \<open>
  Two instruments with the common dates 2 and 3; a second data set in which the series of
  \<^verbatim>\<open>1360.T\<close> is empty.
\<close>

definition sample_fetch :: "string \<Rightarrow> frame" where
  "sample_fetch symbol = (if symbol = ''1579.T'' then [(1, 100), (2, 110), (3, 120)]
                          else [(2, 50), (3, 55), (4, 60)])"

definition gap_fetch :: "string \<Rightarrow> frame" where
  "gap_fetch symbol = (if symbol = ''1579.T'' then [(1, 100), (2, 110), (3, 120)] else [])"


definition lax_algorithm :: algorithm where
  "lax_algorithm cd cp =
     [\<lparr>sg_symbol = Some ''1579.T'', sg_action = Some ''BUY'', sg_quantity = Some 0,
       sg_reason = None\<rparr>,
      \<lparr>sg_symbol = Some ''1360.T'', sg_action = Some ''BUY'', sg_quantity = Some (- 3),
       sg_reason = None\<rparr>]"

definition broken_algorithm :: algorithm where
  "broken_algorithm cd cp =
     [\<lparr>sg_symbol = Some ''1579.T'', sg_action = Some ''BUY'', sg_quantity = Some 2,
       sg_reason = None\<rparr>,
      \<lparr>sg_symbol = Some ''1360.T'', sg_action = Some ''BUY'', sg_quantity = None,
       sg_reason = None\<rparr>]"

section \<open>Properties\<close>

subsection \<open>Theorems on \<^verbatim>\<open>execute_trade\<close>\<close>

text \<open>
  C10. An action string other than \<^verbatim>\<open>'BUY'\<close> and \<^verbatim>\<open>'SELL'\<close> makes \<^verbatim>\<open>execute_trade\<close> a
  complete no-op: no exception, and the engine (cash, positions, entry prices, trade
  history) is returned as it was.
\<close>

theorem execute_trade_other_action_noop:
  "action \<noteq> ''BUY'' \<Longrightarrow> action \<noteq> ''SELL'' \<Longrightarrow>
   execute_trade s symbol action quantity price d = (None, s)"
  by (simp add: execute_trade_def)

theorem execute_trade_other_action_noop_witness:
  "''HOLD'' \<noteq> ''BUY'' \<and> ''HOLD'' \<noteq> ''SELL'' \<and>
   execute_trade (init_engine 1000 0.002 0.001 0.05 0.15) ''1579.T'' ''HOLD'' 5 100 3
     = (None, init_engine 1000 0.002 0.001 0.05 0.15)"
  using execute_trade_other_action_noop
    [of "''HOLD''" "init_engine 1000 0.002 0.001 0.05 0.15" "''1579.T''" 5 100 3]
  by simp






text \<open>
  C9 (as amended). An accepted BUY sets the remembered entry price of the instrument, to
  the slippage-adjusted execution price, if and only if the pre-trade position was zero or
  the instrument had no remembered entry price yet; otherwise it leaves the entry prices
  as they are (no volume-weighted averaging). And no call of \<^verbatim>\<open>execute_trade\<close>, for whatever
  symbol and action, changes the remembered entry price of an instrument whose position is
  not zero: it persists until the position returns to zero.
\<close>

theorem buy_entry_price:
  "(execute_trade s symbol ''BUY'' quantity price d = (None, s')
      \<and> trade_history s' \<noteq> trade_history s
    \<longrightarrow> position_entry_prices s' =
          (if map_of (positions s) symbol = Some 0 \<or> map_of (position_entry_prices s) symbol = None
           then AList.update symbol (price * (1 + slippage s)) (position_entry_prices s)
           else position_entry_prices s))
   \<and> (\<forall>x e held. map_of (position_entry_prices s) x = Some e
          \<and> map_of (positions s) x = Some held \<and> held \<noteq> 0
        \<longrightarrow> map_of (position_entry_prices (snd (execute_trade s symbol action quantity price d))) x
              = Some e)"
  by (auto simp: execute_trade_def buy_accept_def sell_accept_def Let_def update_conv'
      split: if_splits option.splits)

text \<open>
  A first BUY of two shares at 100 records the entry price 100.1; a second BUY at 110 into
  the open position leaves it there.
\<close>

theorem buy_entry_price_witness:
  "position_entry_prices
     (snd (execute_trade (init_engine 1000 0.002 0.001 0.05 0.15) ''1579.T'' ''BUY'' 2 100 7))
     = [(''1579.T'', 100 * (1 + 0.001))]
   \<and> map_of (position_entry_prices
        (snd (execute_trade
               (snd (execute_trade (init_engine 1000 0.002 0.001 0.05 0.15) ''1579.T'' ''BUY'' 2 100 7))
               ''1579.T'' ''BUY'' 1 110 8))) ''1579.T''
     = Some (100 * (1 + 0.001))"
proof -
  let ?e = "init_engine 1000 0.002 0.001 0.05 0.15"
  let ?r = "execute_trade ?e ''1579.T'' ''BUY'' 2 100 7"
  have a: "?r = (None, snd ?r)"
    by (simp add: execute_trade_def buy_accept_def init_engine_def Let_def)
  have b: "trade_history (snd ?r) \<noteq> trade_history ?e"
    by (simp add: execute_trade_def buy_accept_def init_engine_def Let_def)
  have z: "map_of (positions ?e) ''1579.T'' = Some 0"
    by (simp add: init_engine_def)
  have sl: "slippage ?e = 0.001" "position_entry_prices ?e = []"
    by (simp_all add: init_engine_def)
  from buy_entry_price [where s = ?e and symbol = "''1579.T''" and quantity = 2 and price = 100
      and d = 7 and s' = "snd ?r"] a b z sl
  have first: "position_entry_prices (snd ?r) = [(''1579.T'', 100 * (1 + 0.001))]"
    by simp
  have held: "map_of (positions (snd ?r)) ''1579.T'' = Some 2"
    by (simp add: execute_trade_def buy_accept_def init_engine_def Let_def)
  from first have ent: "map_of (position_entry_prices (snd ?r)) ''1579.T'' = Some (100 * (1 + 0.001))"
    by simp
  from buy_entry_price [where s = "snd ?r" and symbol = "''1579.T''" and action = "''BUY''"
      and quantity = 1 and price = 110 and d = 8] ent held
  have "map_of (position_entry_prices (snd (execute_trade (snd ?r) ''1579.T'' ''BUY'' 1 110 8)))
          ''1579.T'' = Some (100 * (1 + 0.001))"
    by simp
  with first show ?thesis by blast
qed

text \<open>
  The claim as written (sets the entry price only if the pre-trade position was zero)
  fails where a position is open without a remembered entry price, because of the test
  \<^verbatim>\<open>symbol not in self.position_entry_prices\<close>. Such a state is reached from a fresh engine
  by a SELL of quantity \<open>-5\<close>, which the position test lets through: the position is then 5
  with no entry price, and the next accepted BUY records one.
\<close>

theorem buy_entry_price_counterexample:
  "map_of (positions (snd (execute_trade (init_engine 1000 0.002 0.001 0.05 0.15)
             ''1579.T'' ''SELL'' (- 5) 100 1))) ''1579.T'' = Some 5
   \<and> map_of (position_entry_prices (snd (execute_trade (init_engine 1000 0.002 0.001 0.05 0.15)
             ''1579.T'' ''SELL'' (- 5) 100 1))) ''1579.T'' = None
   \<and> map_of (position_entry_prices (snd (execute_trade
        (snd (execute_trade (init_engine 1000 0.002 0.001 0.05 0.15) ''1579.T'' ''SELL'' (- 5) 100 1))
        ''1579.T'' ''BUY'' 1 100 2))) ''1579.T'' = Some (100 * (1 + 0.001))
   \<and> length (trade_history (snd (execute_trade
        (snd (execute_trade (init_engine 1000 0.002 0.001 0.05 0.15) ''1579.T'' ''SELL'' (- 5) 100 1))
        ''1579.T'' ''BUY'' 1 100 2))) = 2"
  by (simp add: execute_trade_def buy_accept_def sell_accept_def init_engine_def Let_def)

text \<open>
  C4. The claim asks every accepted SELL to attach the realized P&L, net proceeds minus
  entry price \<open>\<times>\<close> quantity, to its trade record. The record that \<^verbatim>\<open>execute_trade\<close> appends
  has the keys below and no other: after a BUY of 10 at 100 and a SELL of 10 at 110 the
  realized P&L would be 95.7022, and the SELL record holds neither a key for it nor that
  value.
\<close>

theorem sell_record_has_no_realized_pnl:
  "fst (execute_trade
          (snd (execute_trade (init_engine 1000000 0.002 0.001 0.05 0.15) ''1579.T'' ''BUY'' 10 100 1))
          ''1579.T'' ''SELL'' 10 110 2) = None
   \<and> map fst (last (trade_history (snd (execute_trade
          (snd (execute_trade (init_engine 1000000 0.002 0.001 0.05 0.15) ''1579.T'' ''BUY'' 10 100 1))
          ''1579.T'' ''SELL'' 10 110 2))))
     = [''date'', ''symbol'', ''action'', ''quantity'', ''price'', ''revenue'',
        ''transaction_fee'', ''slippage_cost'']
   \<and> PFloat (10 * (110 * (1 - 0.001)) * (1 - 0.002) - 100 * (1 + 0.001) * 10)
       \<notin> snd ` set (last (trade_history (snd (execute_trade
          (snd (execute_trade (init_engine 1000000 0.002 0.001 0.05 0.15) ''1579.T'' ''BUY'' 10 100 1))
          ''1579.T'' ''SELL'' 10 110 2))))"
  by (simp add: execute_trade_def buy_accept_def sell_accept_def sell_record_def
      init_engine_def Let_def)

subsection \<open>Theorems on \<^verbatim>\<open>check_risk_management\<close>\<close>

text \<open>
  C5. The claim says that a threshold of zero disables its check. In the code the tests
  are \<^verbatim>\<open>current_return <= -self.stop_loss\<close> and \<^verbatim>\<open>current_return >= self.take_profit\<close>,
  so with both thresholds zero every return triggers one of them: a position of 10 entered
  at 100.1 is stopped out at the price 95 and profit-taken at the price 105.
\<close>

theorem zero_thresholds_still_trigger:
  "check_risk_management
     (snd (execute_trade (init_engine 1000000 0.002 0.001 0 0) ''1579.T'' ''BUY'' 10 100 1))
     ''1579.T'' 95 2
   = Inr [\<lparr>sg_symbol = Some ''1579.T'', sg_action = Some ''SELL'', sg_quantity = Some 10,
           sg_reason = Some (Stop_loss_triggered ((95 - 100 * (1 + 0.001)) / (100 * (1 + 0.001))))\<rparr>]
   \<and> check_risk_management
     (snd (execute_trade (init_engine 1000000 0.002 0.001 0 0) ''1579.T'' ''BUY'' 10 100 1))
     ''1579.T'' 105 2
   = Inr [\<lparr>sg_symbol = Some ''1579.T'', sg_action = Some ''SELL'', sg_quantity = Some 10,
           sg_reason = Some (Take_profit_triggered ((105 - 100 * (1 + 0.001)) / (100 * (1 + 0.001))))\<rparr>]"
  by (simp add: check_risk_management_def execute_trade_def buy_accept_def init_engine_def Let_def)

subsection \<open>The loops of \<^verbatim>\<open>run_backtest\<close>\<close>





text \<open>The aligned dates are the sorted intersection of the indexes.\<close>

lemma fold_inter:
  "fold (\<lambda>other acc. acc \<inter> f other) rest A = A \<inter> (\<Inter>x\<in>set rest. f x)"
  by (induction rest arbitrary: A) auto

lemma common_dates_set:
  "common_dates (data_values fetch symbols) = Inr dates \<Longrightarrow>
     symbols \<noteq> [] \<and> dates = sorted_list_of_set (\<Inter>symbol\<in>set symbols. fst ` set (fetch symbol))"
proof -
  assume a: "common_dates (data_values fetch symbols) = Inr dates"
  have s: "set (rev (remdups (rev symbols))) = set symbols" by simp
  show ?thesis
  proof (cases "rev (remdups (rev symbols))")
    case Nil
    with a show ?thesis by (simp add: common_dates_def data_values_def)
  next
    case (Cons x xs)
    with s have ne: "symbols \<noteq> []" by auto
    from Cons s have st: "set symbols = insert x (set xs)" by simp
    from a Cons have "dates = sorted_list_of_set
        (fold (\<lambda>other acc. acc \<inter> set (map fst other)) (map fetch xs) (set (map fst (fetch x))))"
      by (simp add: common_dates_def data_values_def)
    also have "fold (\<lambda>other acc. acc \<inter> set (map fst other)) (map fetch xs) (set (map fst (fetch x)))
        = (\<Inter>symbol\<in>set symbols. fst ` set (fetch symbol))"
      unfolding fold_inter st by auto
    finally show ?thesis using ne by simp
  qed
qed

lemma common_dates_Inl:
  "common_dates (data_values fetch symbols) = Inl e \<Longrightarrow> symbols = []"
  by (cases symbols) (auto simp: common_dates_def data_values_def split: list.splits)

lemma common_dates_list:
  "common_dates (df # rest) =
     Inr (sort (remdups (filter (\<lambda>d. \<forall>other\<in>set rest. d \<in> fst ` set other) (map fst df))))"
proof -
  have "fold (\<lambda>other acc. acc \<inter> set (map fst other)) rest (set (map fst df))
        = set (filter (\<lambda>d. \<forall>other\<in>set rest. d \<in> fst ` set other) (map fst df))"
    unfolding fold_inter by auto
  then show ?thesis
    by (simp add: common_dates_def sorted_list_of_set_sort_remdups del: set_map set_filter)
qed

lemmas run_defs = run_backtest_def data_values_def common_dates_list
  init_engine_def zero_positions_def run_bar_def current_data_def
  check_risk_management_def execute_trade_def buy_accept_def sell_accept_def
  calculate_portfolio_value_def Let_def











text \<open>An intent without one of its keys stops the signal loop, the bar and the run.\<close>

lemma execute_signals_append:
  "execute_signals s prices d (xs @ ys) =
     (case execute_signals s prices d xs of
        (Some e, s') \<Rightarrow> (Some e, s')
      | (None, s') \<Rightarrow> execute_signals s' prices d ys)"
  by (induction xs arbitrary: s) (auto split: option.splits prod.splits)

lemma execute_signals_malformed_head:
  "sg_symbol sg = None \<or> sg_action sg = None \<or> sg_quantity sg = None \<Longrightarrow>
   execute_signals s prices d (sg # post) =
     (Some (KeyError (PStr (if sg_symbol sg = None then ''symbol''
                            else if sg_action sg = None then ''action'' else ''quantity''))), s)"
  by (auto split: option.splits)

lemma execute_signals_malformed:
  "sg \<in> set sgs \<Longrightarrow> sg_symbol sg = None \<or> sg_action sg = None \<or> sg_quantity sg = None \<Longrightarrow>
   fst (execute_signals s prices d sgs) \<noteq> None"
proof -
  assume m: "sg \<in> set sgs" and bad: "sg_symbol sg = None \<or> sg_action sg = None \<or> sg_quantity sg = None"
  from m obtain pre post where sp: "sgs = pre @ sg # post" by (auto simp: in_set_conv_decomp)
  obtain r s1 where p: "execute_signals s prices d pre = (r, s1)"
    by (cases "execute_signals s prices d pre")
  show ?thesis
    using p execute_signals_malformed_head [OF bad, of s1 prices d post]
    by (cases r) (simp_all add: sp execute_signals_append)
qed

lemma run_bar_malformed:
  assumes "current_prices fetch d [] symbols = Inr prices"
    and "sg \<in> set (alg (current_data fetch symbols d) prices)"
    and "sg_symbol sg = None \<or> sg_action sg = None \<or> sg_quantity sg = None"
  shows "fst (run_bar alg fetch symbols s d) \<noteq> None"
proof (cases "risk_signals s prices d symbols")
  case (Inl e)
  with assms(1) show ?thesis by (simp add: run_bar_def)
next
  case (Inr risk)
  obtain r1 s1 where e1: "execute_signals s prices d risk = (r1, s1)"
    by (cases "execute_signals s prices d risk")
  obtain r2 s2 where e2:
    "execute_signals s1 prices d (alg (current_data fetch symbols d) prices) = (r2, s2)"
    by (cases "execute_signals s1 prices d (alg (current_data fetch symbols d) prices)")
  from execute_signals_malformed [OF assms(2,3), of s1 prices d] e2 have "r2 \<noteq> None" by simp
  then obtain e where "r2 = Some e" by auto
  with assms(1) Inr e1 e2 show ?thesis by (cases r1) (simp_all add: run_bar_def)
qed

lemma run_bars_fail:
  "d \<in> set ds \<Longrightarrow> \<forall>s. fst (run_bar alg fetch symbols s d) \<noteq> None \<Longrightarrow>
   fst (run_bars alg fetch symbols s ds) \<noteq> None"
proof (induction ds arbitrary: s)
  case Nil
  then show ?case by simp
next
  case (Cons x ds)
  obtain r1 s1 where b: "run_bar alg fetch symbols s x = (r1, s1)"
    by (cases "run_bar alg fetch symbols s x")
  show ?case
  proof (cases r1)
    case (Some e)
    with b show ?thesis by simp
  next
    case None
    with b Cons.prems(2) have "x \<noteq> d" by (metis fst_conv)
    with Cons.prems(1) have "d \<in> set ds" by simp
    from Cons.IH [OF this Cons.prems(2), of s1] b None show ?thesis by simp
  qed
qed

subsection \<open>Theorems on \<^verbatim>\<open>run_backtest\<close>\<close>





text \<open>
  C7 (as amended). A strategy intent that lacks one of the keys \<^verbatim>\<open>symbol\<close>, \<^verbatim>\<open>action\<close>,
  \<^verbatim>\<open>quantity\<close> makes the run fail fast: the signal loop stops at that intent with the
  \<^verbatim>\<open>KeyError\<close> that names the first missing key, the engine being as the intents before it
  left it (the intent is not executed), and \<^verbatim>\<open>run_backtest\<close> ends with an error instead of a
  result.
\<close>

theorem malformed_signal_fails_fast:
  "sg_symbol sg = None \<or> sg_action sg = None \<or> sg_quantity sg = None \<longrightarrow>
     (execute_signals s prices d pre = (None, mid) \<longrightarrow>
        execute_signals s prices d (pre @ sg # post) =
          (Some (KeyError (PStr (if sg_symbol sg = None then ''symbol''
                                 else if sg_action sg = None then ''action'' else ''quantity''))),
           mid))
   \<and> (common_dates (data_values fetch symbols) = Inr dates \<and> d \<in> set dates
        \<and> current_prices fetch d [] symbols = Inr prices
        \<and> sg \<in> set (alg (current_data fetch symbols d) prices) \<longrightarrow>
        isl (fst (run_backtest alg fetch symbols s)))"
proof (intro impI conjI)
  assume bad: "sg_symbol sg = None \<or> sg_action sg = None \<or> sg_quantity sg = None"
    and pre: "execute_signals s prices d pre = (None, mid)"
  from execute_signals_malformed_head [OF bad, of mid prices d post] pre
  show "execute_signals s prices d (pre @ sg # post) =
          (Some (KeyError (PStr (if sg_symbol sg = None then ''symbol''
                                 else if sg_action sg = None then ''action'' else ''quantity''))),
           mid)"
    by (simp add: execute_signals_append)
next
  assume bad: "sg_symbol sg = None \<or> sg_action sg = None \<or> sg_quantity sg = None"
    and run: "common_dates (data_values fetch symbols) = Inr dates \<and> d \<in> set dates
        \<and> current_prices fetch d [] symbols = Inr prices
        \<and> sg \<in> set (alg (current_data fetch symbols d) prices)"
  let ?s0 = "s\<lparr>current_capital := initial_capital s, positions := zero_positions symbols,
                trade_history := [], portfolio_values := []\<rparr>"
  from run have cp: "current_prices fetch d [] symbols = Inr prices"
    and mem: "sg \<in> set (alg (current_data fetch symbols d) prices)"
    and dd: "d \<in> set dates" by simp_all
  have "\<forall>s. fst (run_bar alg fetch symbols s d) \<noteq> None"
  proof
    fix s
    show "fst (run_bar alg fetch symbols s d) \<noteq> None"
      by (rule run_bar_malformed [where sg = sg and prices = prices]) (fact cp mem bad)+
  qed
  from run_bars_fail [OF dd this]
  have "fst (run_bars alg fetch symbols ?s0 dates) \<noteq> None" .
  then obtain e s' where "run_bars alg fetch symbols ?s0 dates = (Some e, s')"
    by (cases "run_bars alg fetch symbols ?s0 dates") auto
  with run show "isl (fst (run_backtest alg fetch symbols s))"
    by (simp add: run_backtest_def Let_def)
qed

theorem malformed_signal_fails_fast_witness:
  "execute_signals (init_engine 1000 0.002 0.001 0.05 0.15) [(''1579.T'', 110), (''1360.T'', 50)] 2
     (broken_algorithm [] [])
   = (Some (KeyError (PStr ''quantity'')),
      snd (execute_trade (init_engine 1000 0.002 0.001 0.05 0.15) ''1579.T'' ''BUY'' 2 110 2))
   \<and> isl (fst (run_backtest broken_algorithm sample_fetch [''1579.T'', ''1360.T'']
                 (init_engine 1000 0.002 0.001 0.05 0.15)))"
proof -
  let ?e = "init_engine 1000 0.002 0.001 0.05 0.15"
  let ?good = "\<lparr>sg_symbol = Some ''1579.T'', sg_action = Some ''BUY'', sg_quantity = Some 2,
                 sg_reason = None\<rparr>"
  let ?bad = "\<lparr>sg_symbol = Some ''1360.T'', sg_action = Some ''BUY'', sg_quantity = None,
                sg_reason = None\<rparr>"
  let ?prices = "[(''1579.T'', 110), (''1360.T'', 50 :: real)]"
  have bad: "sg_symbol ?bad = None \<or> sg_action ?bad = None \<or> sg_quantity ?bad = None"
    by simp
  have pre: "execute_signals ?e ?prices 2 [?good]
             = (None, snd (execute_trade ?e ''1579.T'' ''BUY'' 2 110 2))"
    by (simp add: execute_trade_def buy_accept_def init_engine_def Let_def)
  have cd: "common_dates (data_values sample_fetch [''1579.T'', ''1360.T'']) = Inr [2, 3]"
    by (simp add: data_values_def common_dates_list sample_fetch_def)
  have cp: "current_prices sample_fetch 2 [] [''1579.T'', ''1360.T''] = Inr ?prices"
    by (simp add: sample_fetch_def)
  have mem: "?bad \<in> set (broken_algorithm
               (current_data sample_fetch [''1579.T'', ''1360.T''] 2) ?prices)"
    by (simp add: broken_algorithm_def)
  note inst = malformed_signal_fails_fast [where sg = ?bad and s = ?e and prices = ?prices
      and d = 2 and pre = "[?good]" and post = "[]" and fetch = sample_fetch
      and symbols = "[''1579.T'', ''1360.T'']" and dates = "[2, 3]" and alg = broken_algorithm
      and mid = "snd (execute_trade ?e ''1579.T'' ''BUY'' 2 110 2)"]
  from inst bad pre
  have a: "execute_signals ?e ?prices 2 ([?good] @ ?bad # [])
           = (Some (KeyError (PStr ''quantity'')),
              snd (execute_trade ?e ''1579.T'' ''BUY'' 2 110 2))"
    by simp
  from inst bad cd cp mem
  have b: "isl (fst (run_backtest broken_algorithm sample_fetch [''1579.T'', ''1360.T''] ?e))"
    by simp
  from a b show ?thesis by (simp add: broken_algorithm_def)
qed

text \<open>
  The claim as written also covers intents of non-positive quantity; those are not
  checked anywhere. The run below completes with four trade records, the first of quantity
  \<open>0\<close>, and the BUYs of \<open>-3\<close> leave a position of \<open>-6\<close>.
\<close>

theorem nonpositive_quantity_executed_counterexample:
  "\<not> isl (fst (run_backtest lax_algorithm sample_fetch [''1579.T'', ''1360.T'']
                 (init_engine 1000 0.002 0.001 0.05 0.15)))
   \<and> length (trade_history (snd (run_backtest lax_algorithm sample_fetch
         [''1579.T'', ''1360.T''] (init_engine 1000 0.002 0.001 0.05 0.15)))) = 4
   \<and> map_of (hd (trade_history (snd (run_backtest lax_algorithm sample_fetch
         [''1579.T'', ''1360.T''] (init_engine 1000 0.002 0.001 0.05 0.15))))) ''quantity''
       = Some (PInt 0)
   \<and> map_of (positions (snd (run_backtest lax_algorithm sample_fetch
         [''1579.T'', ''1360.T''] (init_engine 1000 0.002 0.001 0.05 0.15)))) ''1360.T''
       = Some (- 6)"
  by (simp add: run_defs sample_fetch_def lax_algorithm_def buy_record_def)

text \<open>An empty intersection of the date sets ends in the subscript of an empty list.\<close>

lemma run_backtest_empty_universe:
  assumes "symbols \<noteq> []"
    and "(\<Inter>symbol\<in>set symbols. fst ` set (fetch symbol)) = {}"
  shows "fst (run_backtest alg fetch symbols s) = Inl IndexError
       \<and> portfolio_values (snd (run_backtest alg fetch symbols s)) = []
       \<and> trade_history (snd (run_backtest alg fetch symbols s)) = []"
proof (cases "common_dates (data_values fetch symbols)")
  case (Inl e)
  from common_dates_Inl [OF this] assms(1) show ?thesis by simp
next
  case (Inr dates)
  from common_dates_set [OF Inr] assms(2) have "dates = []" by simp
  with Inr show ?thesis by (simp add: run_backtest_def)
qed

text \<open>
  C6. The claim asks for a normal return with an empty result when the aligned date
  universe is empty. The loop then runs over no date, and
  \<^verbatim>\<open>self.portfolio_values[-1]\<close> raises \<^verbatim>\<open>IndexError\<close>: so for every strategy and engine,
  with the series of \<^verbatim>\<open>1360.T\<close> empty.
\<close>

theorem empty_universe_raises:
  "fst (run_backtest alg gap_fetch [''1579.T'', ''1360.T''] s) = Inl IndexError
   \<and> portfolio_values (snd (run_backtest alg gap_fetch [''1579.T'', ''1360.T''] s)) = []
   \<and> trade_history (snd (run_backtest alg gap_fetch [''1579.T'', ''1360.T''] s)) = []"
  by (rule run_backtest_empty_universe) (simp_all add: gap_fetch_def)

end
